theory Spec2Isabelle
  imports Main "HOL-Library.Multiset"
begin

section \<open>The cluster client of clusterctl\<close>

text \<open>
  A shallow embedding of \<^verbatim>\<open>cmd/clusterctl/clusterdeployer/clusterclient/clusterclient.go\<close>
  and of the cluster template webhook. The API server, the controller-runtime client and the
  typed clientset are external collaborators: every call the source makes on them is a field
  of a record of responses, and the functions of the source are functions of that record.
\<close>

subsection \<open>Errors, panics and results\<close>

text \<open>
  A Go \<^verbatim>\<open>error\<close> value. \<open>Wrap msg e\<close> is \<^verbatim>\<open>errors.Wrap(e, msg)\<close> and
  \<^verbatim>\<open>errors.Wrapf\<close>, \<open>Errorf msg\<close> is \<^verbatim>\<open>errors.Errorf\<close>, \<open>Timeout\<close> is what the
  poller returns when its budget is used up; \<open>NotFound\<close> and \<open>RemoteError\<close> are what the
  remote calls answer. A message is the format string of the source with its arguments in
  place, without the quotes that \<^verbatim>\<open>%q\<close> and the format strings put around them.
\<close>

datatype error =
    NotFound string
  | RemoteError string
  | Timeout
  | Errorf string
  | Wrap string error

text \<open>A run-time panic of the Go program: it is not a returned error.\<close>

datatype panic = NilDereference | IndexOutOfRange

text \<open>
  What a call of a Go function does: it panics, it returns a non-nil error, or it returns
  normally with a value (\<open>Ok ()\<close> is a nil error).
\<close>

datatype 'a outcome = Panic panic | Err error | Ok 'a

subsection \<open>Objects\<close>

record OwnerReference =
  orKind :: string
  orName :: string

text \<open>
  \<^verbatim>\<open>metav1.ObjectMeta\<close>, with the fields the source reads or writes. A Go map or slice
  that is nil is the empty list.
\<close>

record ObjectMeta =
  Name :: string
  Namespace :: string
  Annotations :: "(string \<times> string) list"
  OwnerReferences :: "OwnerReference list"
  Finalizers :: "string list"

text \<open>
  A resource of the API: \<^verbatim>\<open>TypeMeta.Kind\<close>, the embedded \<^verbatim>\<open>ObjectMeta\<close> and the
  status, whose type depends on the kind of resource.
\<close>

record 's Resource =
  Kind :: string
  Meta :: ObjectMeta
  Status :: 's

record APIEndpoint =
  Host :: string
  Port :: int

text \<open>
  The status types are declared in \<^verbatim>\<open>pkg/apis/cluster/v1alpha1\<close>, which is not among the
  sources. The records hold the fields that the client reads (\<^verbatim>\<open>APIEndpoints\<close>,
  \<^verbatim>\<open>ProviderStatus\<close>, \<^verbatim>\<open>NodeRef\<close>); the fields it never reads are kept together in
  one list, empty when all of them are unset.
\<close>

record ClusterStatus =
  APIEndpoints :: "APIEndpoint list"
  ClusterProviderStatus :: "string option"
  ClusterStatusOther :: "string list"

record MachineDeploymentStatus =
  MachineDeploymentStatusOther :: "string list"

record MachineSetStatus =
  MachineSetStatusOther :: "string list"

record MachineStatus =
  NodeRef :: "string option"
  MachineProviderStatus :: "string option"
  MachineStatusOther :: "string list"

type_synonym Cluster = "ClusterStatus Resource"
type_synonym MachineDeployment = "MachineDeploymentStatus Resource"
type_synonym MachineSet = "MachineSetStatus Resource"
type_synonym Machine = "MachineStatus Resource"

subsection \<open>The controller-runtime client\<close>

text \<open>\<^verbatim>\<open>ctrlclient.ListOptions\<close>: the namespace (empty for all) and the label selector.\<close>

record ListOptions =
  optNamespace :: string
  optLabelSelector :: string

text \<open>The options of a delete call: the propagation policy is the only one in use.\<close>

datatype DeletionPropagation =
  DeletePropagationOrphan | DeletePropagationBackground | DeletePropagationForeground

datatype DeleteOption = PropagationPolicy DeletionPropagation

text \<open>
  The answers of the collaborators at one moment. \<open>GetConfig\<close> is the error of
  \<^verbatim>\<open>ctrl.GetConfig()\<close>, \<open>None\<close> when it returns a configuration. \<open>New\<close> is the
  error of \<^verbatim>\<open>ctrlclient.New\<close>, \<open>None\<close> when it returns a client.
  A list call gets its options, a get call the namespace and the name; a delete of a
  collection gets the pointer to the list, \<open>None\<close> when the pointer is nil.
  \<open>MachineReadyTimeout\<close> is the number of minutes in the environment variable
  \<^verbatim>\<open>CLUSTER_API_MACHINE_READY_TIMEOUT\<close>, \<open>None\<close> when the variable is unset or is not
  a number.
\<close>

record ext =
  GetConfig :: "error option"
  New :: "error option"
  SetLabelSelector :: "string \<Rightarrow> error option"
  ListClusters :: "ListOptions \<Rightarrow> error + Cluster list"
  ListMachineDeployments :: "ListOptions \<Rightarrow> error + MachineDeployment list"
  ListMachineSets :: "ListOptions \<Rightarrow> error + MachineSet list"
  ListMachines :: "ListOptions \<Rightarrow> error + Machine list"
  GetMachine :: "string \<Rightarrow> string \<Rightarrow> error + Machine"
  CreateMachine :: "Machine \<Rightarrow> error option"
  UpdateMachine :: "Machine \<Rightarrow> error option"
  DeleteMachine :: "Machine \<Rightarrow> DeleteOption list \<Rightarrow> error option"
  DeleteClusterList :: "Cluster list option \<Rightarrow> error option"
  DeleteMachineList :: "Machine list option \<Rightarrow> error option"
  MachineReadyTimeout :: "int option"

text \<open>
  The client that \<^verbatim>\<open>ctrlclient.New\<close> returns: \<open>None\<close> is the nil client that comes
  with an error. The source assigns the error to \<^verbatim>\<open>err\<close> and never reads it, and goes
  on to call the client: a call on the nil client panics. The answers to the calls on a
  client are those of the record above.
\<close>

datatype client = Client

definition ctrlclientNew :: "ext \<Rightarrow> client option" where
  "ctrlclientNew X = (case New X of None \<Rightarrow> Some Client | Some err \<Rightarrow> None)"

text \<open>
  The calls on single machines that a function issued, in the order it issued them.
\<close>

datatype call =
    GetCall string string
  | CreateCall Machine
  | UpdateCall Machine
  | DeleteCall Machine "DeleteOption list"

definition machineClusterLabelName :: string where
  "machineClusterLabelName = ''cluster.k8s.io/cluster-name''"

subsection \<open>GetClusters and GetCluster\<close>

definition GetClusters :: "ext \<Rightarrow> string \<Rightarrow> Cluster list outcome" where
  "GetClusters X namespace =
     (case GetConfig X of
        Some err \<Rightarrow> Err (Wrap ''error creating config for core clientset'' err)
      | None \<Rightarrow>
          (case ctrlclientNew X of
             None \<Rightarrow> Panic NilDereference
           | Some clientset \<Rightarrow>
               (case ListClusters X \<lparr>optNamespace = namespace, optLabelSelector = ''''\<rparr> of
                  Inl err \<Rightarrow>
                    Err (Wrap (''error listing cluster objects in namespace '' @ namespace) err)
                | Inr items \<Rightarrow> Ok items)))"

text \<open>
  The loop of \<^verbatim>\<open>GetCluster\<close> keeps the first cluster of the list that has the name and
  leaves the pointer nil (\<open>None\<close>) when there is none.
\<close>

definition GetCluster :: "ext \<Rightarrow> string \<Rightarrow> string \<Rightarrow> Cluster option outcome" where
  "GetCluster X name ns =
     (case GetClusters X ns of
        Panic p \<Rightarrow> Panic p
      | Err err \<Rightarrow> Err err
      | Ok clustersInNamespace \<Rightarrow> Ok (find (\<lambda>nc. Name (Meta nc) = name) clustersInNamespace))"

subsection \<open>ExtractControlPlaneMachines\<close>

text \<open>
  \<^verbatim>\<open>util.IsControlPlaneMachine\<close> is not among the sources: the function takes the decision
  procedure as its first argument. The machines are of any type \<open>'m\<close>.
\<close>

fun ExtractLoop :: "('m \<Rightarrow> bool) \<Rightarrow> 'm list \<Rightarrow> 'm list \<Rightarrow> 'm list \<Rightarrow> 'm list \<times> 'm list" where
  "ExtractLoop IsControlPlaneMachine [] controlPlaneMachines nodes = (controlPlaneMachines, nodes)"
| "ExtractLoop IsControlPlaneMachine (machine # machines) controlPlaneMachines nodes =
     (if IsControlPlaneMachine machine
      then ExtractLoop IsControlPlaneMachine machines (controlPlaneMachines @ [machine]) nodes
      else ExtractLoop IsControlPlaneMachine machines controlPlaneMachines (nodes @ [machine]))"

definition ExtractControlPlaneMachines ::
  "('m \<Rightarrow> bool) \<Rightarrow> 'm list \<Rightarrow> ('m list \<times> 'm list) outcome" where
  "ExtractControlPlaneMachines IsControlPlaneMachine machines =
     (case ExtractLoop IsControlPlaneMachine machines [] [] of
        (controlPlaneMachines, nodes) \<Rightarrow>
          if length controlPlaneMachines < 1
          then Err (Errorf ''expected one or more control plane machines, got: 0'')
          else Ok (controlPlaneMachines, nodes))"

subsection \<open>The objects of a cluster\<close>

text \<open>
  The three functions fetch the candidates with the cluster's label and keep those that
  have an owner reference with the kind and the name of the cluster. Their loops differ in
  what they append.

  In \<^verbatim>\<open>GetMachineSetsForCluster\<close> and \<^verbatim>\<open>GetMachinesForCluster\<close> the inner loop runs
  over the owner references of the candidate at \<open>idx\<close> and appends
  \<^verbatim>\<open>&list.Items[idx]\<close>, the candidate, at every reference that matches: its
  \<^verbatim>\<open>continue\<close> goes on with the next reference.
\<close>

fun ownerRefsLoop ::
  "'c Resource \<Rightarrow> 'a Resource \<Rightarrow> OwnerReference list \<Rightarrow> 'a Resource list \<Rightarrow> 'a Resource list" where
  "ownerRefsLoop cluster item [] acc = acc"
| "ownerRefsLoop cluster item (oref # orefs) acc =
     (if orKind oref = Kind cluster \<and> orName oref = Name (Meta cluster)
      then ownerRefsLoop cluster item orefs (acc @ [item])
      else ownerRefsLoop cluster item orefs acc)"

fun itemsLoop :: "'c Resource \<Rightarrow> 'a Resource list \<Rightarrow> 'a Resource list \<Rightarrow> 'a Resource list" where
  "itemsLoop cluster [] acc = acc"
| "itemsLoop cluster (item # items) acc =
     itemsLoop cluster items (ownerRefsLoop cluster item (OwnerReferences (Meta item)) acc)"

definition clusterSelector :: "Cluster \<Rightarrow> string" where
  "clusterSelector cluster = machineClusterLabelName @ ''='' @ Name (Meta cluster)"

definition GetMachineSetsForCluster :: "ext \<Rightarrow> Cluster \<Rightarrow> MachineSet list outcome" where
  "GetMachineSetsForCluster X cluster =
     (case GetConfig X of
        Some err \<Rightarrow> Err (Wrap ''error creating config for core clientset'' err)
      | None \<Rightarrow>
          (case SetLabelSelector X (clusterSelector cluster) of
             Some err \<Rightarrow> Err (Wrap (''error settings label selector '' @ clusterSelector cluster
                            @ '' for Cluster '' @ Namespace (Meta cluster) @ ''/''
                            @ Name (Meta cluster)) err)
           | None \<Rightarrow>
               (case ctrlclientNew X of
                  None \<Rightarrow> Panic NilDereference
                | Some clientset \<Rightarrow>
                    (case ListMachineSets X
                            \<lparr>optNamespace = '''', optLabelSelector = clusterSelector cluster\<rparr> of
                       Inl err \<Rightarrow> Err (Wrap (''error listing MachineSets for Cluster ''
                                     @ Namespace (Meta cluster) @ ''/'' @ Name (Meta cluster)) err)
                     | Inr items \<Rightarrow> Ok (itemsLoop cluster items [])))))"

definition GetMachinesForCluster :: "ext \<Rightarrow> Cluster \<Rightarrow> Machine list outcome" where
  "GetMachinesForCluster X cluster =
     (case GetConfig X of
        Some err \<Rightarrow> Err (Wrap ''error creating config for core clientset'' err)
      | None \<Rightarrow>
          (case SetLabelSelector X (clusterSelector cluster) of
             Some err \<Rightarrow> Err (Wrap (''error settings label selector '' @ clusterSelector cluster
                            @ '' for Cluster '' @ Namespace (Meta cluster) @ ''/''
                            @ Name (Meta cluster)) err)
           | None \<Rightarrow>
               (case ctrlclientNew X of
                  None \<Rightarrow> Panic NilDereference
                | Some clientset \<Rightarrow>
                    (case ListMachines X
                            \<lparr>optNamespace = '''', optLabelSelector = clusterSelector cluster\<rparr> of
                       Inl err \<Rightarrow> Err (Wrap (''error listing Machines for Cluster ''
                                     @ Namespace (Meta cluster) @ ''/'' @ Name (Meta cluster)) err)
                     | Inr items \<Rightarrow> Ok (itemsLoop cluster items [])))))"

text \<open>
  \<^verbatim>\<open>GetMachineDeploymentsForCluster\<close> appends \<^verbatim>\<open>machineDeployments[idx]\<close>: it reads
  the slice of results it is building at the index of the candidate. Go panics when the
  index is not below the length of the slice.
\<close>

fun mdOwnerRefsLoop ::
  "Cluster \<Rightarrow> nat \<Rightarrow> OwnerReference list \<Rightarrow> MachineDeployment list
     \<Rightarrow> MachineDeployment list outcome" where
  "mdOwnerRefsLoop cluster idx [] machineDeployments = Ok machineDeployments"
| "mdOwnerRefsLoop cluster idx (oref # orefs) machineDeployments =
     (if orKind oref = Kind cluster \<and> orName oref = Name (Meta cluster)
      then (if idx < length machineDeployments
            then mdOwnerRefsLoop cluster idx orefs
                   (machineDeployments @ [machineDeployments ! idx])
            else Panic IndexOutOfRange)
      else mdOwnerRefsLoop cluster idx orefs machineDeployments)"

fun mdItemsLoop ::
  "Cluster \<Rightarrow> nat \<Rightarrow> MachineDeployment list \<Rightarrow> MachineDeployment list
     \<Rightarrow> MachineDeployment list outcome" where
  "mdItemsLoop cluster idx [] machineDeployments = Ok machineDeployments"
| "mdItemsLoop cluster idx (md # items) machineDeployments =
     (case mdOwnerRefsLoop cluster idx (OwnerReferences (Meta md)) machineDeployments of
        Ok machineDeployments' \<Rightarrow> mdItemsLoop cluster (Suc idx) items machineDeployments'
      | Err err \<Rightarrow> Err err
      | Panic p \<Rightarrow> Panic p)"

definition GetMachineDeploymentsForCluster ::
  "ext \<Rightarrow> Cluster \<Rightarrow> MachineDeployment list outcome" where
  "GetMachineDeploymentsForCluster X cluster =
     (case GetConfig X of
        Some err \<Rightarrow> Err (Wrap ''error creating config for core clientset'' err)
      | None \<Rightarrow>
          (case SetLabelSelector X (clusterSelector cluster) of
             Some err \<Rightarrow> Err (Wrap (''error settings label selector '' @ clusterSelector cluster
                            @ '' for Cluster '' @ Namespace (Meta cluster) @ ''/''
                            @ Name (Meta cluster)) err)
           | None \<Rightarrow>
               (case ctrlclientNew X of
                  None \<Rightarrow> Panic NilDereference
                | Some clientset \<Rightarrow>
                    (case ListMachineDeployments X
                            \<lparr>optNamespace = '''', optLabelSelector = clusterSelector cluster\<rparr> of
                       Inl err \<Rightarrow> Err (Wrap (''error listing MachineDeployments for Cluster ''
                                     @ Namespace (Meta cluster) @ ''/'' @ Name (Meta cluster)) err)
                     | Inr items \<Rightarrow> mdItemsLoop cluster 0 items []))))"

subsection \<open>The validation of a cluster template\<close>

record ClusterSpec =
  ControlPlaneEndpoint :: APIEndpoint
  Paused :: bool

record ClusterTemplateResource =
  ResourceSpec :: ClusterSpec

record ClusterTemplateSpec =
  Template :: ClusterTemplateResource

record ClusterTemplate =
  TemplateMeta :: ObjectMeta
  TemplateSpec :: ClusterTemplateSpec

text \<open>
  Modelled from the spec: \<^verbatim>\<open>APIEndpoint.IsZero\<close> is declared in \<^verbatim>\<open>api/v1alpha3\<close>,
  which is not among the sources. The spec speaks of a non-zero control-plane endpoint: the
  endpoint is zero when it is the zero value of its type, host and port unset.
\<close>

definition IsZero :: "APIEndpoint \<Rightarrow> bool" where
  "IsZero v \<longleftrightarrow> Host v = '''' \<and> Port v = 0"

text \<open>
  The package \<^verbatim>\<open>field\<close> of apimachinery: a path is the list of its names, printed with
  dots; \<^verbatim>\<open>field.Invalid\<close> builds the error of an invalid value.
\<close>

type_synonym Path = "string list"

definition NewPath :: "string list \<Rightarrow> Path" where
  "NewPath names = names"

definition Child :: "Path \<Rightarrow> string \<Rightarrow> Path" where
  "Child path name = path @ [name]"

fun PathString :: "Path \<Rightarrow> string" where
  "PathString [] = ''''"
| "PathString [name] = name"
| "PathString (name # names) = name @ ''.'' @ PathString names"

datatype ErrorType = ErrorTypeInvalid

datatype BadValue = EndpointValue APIEndpoint | BoolValue bool

record FieldError =
  ErrType :: ErrorType
  Field :: string
  Bad :: BadValue
  Detail :: string

definition Invalid :: "Path \<Rightarrow> BadValue \<Rightarrow> string \<Rightarrow> FieldError" where
  "Invalid path v detail =
     \<lparr>ErrType = ErrorTypeInvalid, Field = PathString path, Bad = v, Detail = detail\<rparr>"

text \<open>
  \<^verbatim>\<open>apierrors.NewInvalid\<close>: the kind, the name of the object and the list of field errors.
\<close>

datatype StatusError = NewInvalid string string "FieldError list"

definition validate :: "ClusterTemplate \<Rightarrow> StatusError option" where
  "validate c =
     (let templateSpecPath = NewPath [''spec'', ''template'', ''spec''];
          allErrs = [];
          allErrs =
            (if \<not> IsZero (ControlPlaneEndpoint (ResourceSpec (Template (TemplateSpec c))))
             then allErrs @
                    [Invalid (Child templateSpecPath ''controlPlaneEndpoint'')
                       (EndpointValue (ControlPlaneEndpoint (ResourceSpec (Template (TemplateSpec c)))))
                       ''may not be populated for cluster templates'']
             else allErrs);
          allErrs =
            (if Paused (ResourceSpec (Template (TemplateSpec c)))
             then allErrs @
                    [Invalid (Child templateSpecPath ''controlPlaneEndpoint'')
                       (BoolValue (Paused (ResourceSpec (Template (TemplateSpec c)))))
                       ''may not be populated for cluster templates'']
             else allErrs)
      in if length allErrs > 0
         then Some (NewInvalid ''ClusterTemplate'' (Name (TemplateMeta c)) allErrs)
         else None)"

subsection \<open>ForceDeleteMachine\<close>

text \<open>
  The function returns its result; the model returns with it the calls on the machine that
  the function issued. \<^verbatim>\<open>SetFinalizers([]string{})\<close> empties the finalizers of the machine
  that the get call fetched, and that machine is what the update and the delete are given.
\<close>

definition ForceDeleteMachine :: "ext \<Rightarrow> string \<Rightarrow> string \<Rightarrow> unit outcome \<times> call list" where
  "ForceDeleteMachine X namespace name =
     (case GetConfig X of
        Some err \<Rightarrow> (Err (Wrap ''error creating config for core clientset'' err), [])
      | None \<Rightarrow>
          (case ctrlclientNew X of
             None \<Rightarrow> (Panic NilDereference, [])
           | Some clientset \<Rightarrow>
          (case GetMachine X namespace name of
             Inl err \<Rightarrow>
               (Err (Wrap (''error getting Machine '' @ namespace @ ''/'' @ name) err),
                [GetCall namespace name])
           | Inr fetched \<Rightarrow>
               (let machine = fetched\<lparr>Meta := (Meta fetched)\<lparr>Finalizers := []\<rparr>\<rparr> in
                case UpdateMachine X machine of
                  Some err \<Rightarrow>
                    (Err (Wrap (''error removing finalizer for Machine '' @ namespace @ ''/'' @ name) err),
                     [GetCall namespace name, UpdateCall machine])
                | None \<Rightarrow>
                    (case DeleteMachine X machine [PropagationPolicy DeletePropagationForeground] of
                       Some err \<Rightarrow>
                         (Err (Wrap (''error deleting Machine '' @ namespace @ ''/'' @ name) err),
                          [GetCall namespace name, UpdateCall machine,
                           DeleteCall machine [PropagationPolicy DeletePropagationForeground]])
                     | None \<Rightarrow>
                         (Ok (),
                          [GetCall namespace name, UpdateCall machine,
                           DeleteCall machine [PropagationPolicy DeletePropagationForeground]]))))))"

subsection \<open>WaitForResourceStatuses\<close>

text \<open>
  The probe lists through the typed clientset of the client, \<^verbatim>\<open>c.clientSet\<close>, in all
  namespaces: the record holds what its four list calls answer. Before them the probe calls
  the list of clusters of the controller-runtime client that it has captured: the call
  panics on the nil client, and its result is overwritten before it is read.
\<close>

record clientSet =
  Clusters :: "error + Cluster list"
  MachineDeployments :: "error + MachineDeployment list"
  MachineSets :: "error + MachineSet list"
  Machines :: "error + Machine list"

text \<open>The zero values of the status types, to which \<^verbatim>\<open>reflect.DeepEqual\<close> compares.\<close>

definition emptyClusterStatus :: ClusterStatus where
  "emptyClusterStatus =
     \<lparr>APIEndpoints = [], ClusterProviderStatus = None, ClusterStatusOther = []\<rparr>"

definition emptyMachineDeploymentStatus :: MachineDeploymentStatus where
  "emptyMachineDeploymentStatus = \<lparr>MachineDeploymentStatusOther = []\<rparr>"

definition emptyMachineSetStatus :: MachineSetStatus where
  "emptyMachineSetStatus = \<lparr>MachineSetStatusOther = []\<rparr>"

definition emptyMachineStatus :: MachineStatus where
  "emptyMachineStatus =
     \<lparr>NodeRef = None, MachineProviderStatus = None, MachineStatusOther = []\<rparr>"

text \<open>
  The four loops of the probe: each returns \<^verbatim>\<open>false, nil\<close> from the probe at the first
  object that fails a check (here \<open>False\<close>) and falls through when none does.
\<close>

fun clustersLoop :: "Cluster list \<Rightarrow> bool" where
  "clustersLoop [] = True"
| "clustersLoop (cluster # items) =
     (if emptyClusterStatus = Status cluster then False
      else if ClusterProviderStatus (Status cluster) = None then False
      else clustersLoop items)"

fun machineDeploymentsLoop :: "MachineDeployment list \<Rightarrow> bool" where
  "machineDeploymentsLoop [] = True"
| "machineDeploymentsLoop (md # items) =
     (if emptyMachineDeploymentStatus = Status md then False
      else machineDeploymentsLoop items)"

fun machineSetsLoop :: "MachineSet list \<Rightarrow> bool" where
  "machineSetsLoop [] = True"
| "machineSetsLoop (ms # items) =
     (if emptyMachineSetStatus = Status ms then False
      else machineSetsLoop items)"

fun machinesLoop :: "Machine list \<Rightarrow> bool" where
  "machinesLoop [] = True"
| "machinesLoop (m # items) =
     (if emptyMachineStatus = Status m then False
      else if MachineProviderStatus (Status m) = None then False
      else machinesLoop items)"

definition resourceStatusesProbe :: "client option \<Rightarrow> clientSet \<Rightarrow> bool outcome" where
  "resourceStatusesProbe clientset cs =
     (case clientset of
        None \<Rightarrow> Panic NilDereference
      | Some client \<Rightarrow>
     (case Clusters cs of
        Inl err \<Rightarrow> Ok False
      | Inr clusters \<Rightarrow>
          if \<not> clustersLoop clusters then Ok False
          else (case MachineDeployments cs of
             Inl err \<Rightarrow> Ok False
           | Inr machineDeployments \<Rightarrow>
               if \<not> machineDeploymentsLoop machineDeployments then Ok False
               else (case MachineSets cs of
                  Inl err \<Rightarrow> Ok False
                | Inr machineSets \<Rightarrow>
                    if \<not> machineSetsLoop machineSets then Ok False
                    else (case Machines cs of
                       Inl err \<Rightarrow> Ok False
                     | Inr machines \<Rightarrow>
                         if \<not> machinesLoop machines then Ok False
                         else Ok True)))))"

subsection \<open>The poller\<close>

text \<open>
  Time is counted in seconds, and the answers of the collaborators are a function of the
  time. A function that waits returns the time at which it returns.
\<close>

type_synonym remote = "nat \<Rightarrow> ext"

definition retryIntervalResourceReady :: int where
  "retryIntervalResourceReady = 10"

definition retryIntervalResourceDelete :: int where
  "retryIntervalResourceDelete = 10"

definition timeoutMachineReady :: int where
  "timeoutMachineReady = 30 * 60"

definition timeoutResourceDelete :: int where
  "timeoutResourceDelete = 15 * 60"

text \<open>
  Modelled from the spec: \<^verbatim>\<open>util.PollImmediate\<close> is declared in \<^verbatim>\<open>pkg/util\<close>, which is
  not among the sources. By the spec the probe is invoked immediately, then at the cadence of
  the interval, until it reports true, reports an error, or the timeout has elapsed, and a
  timeout without an error gives the caller a timeout error. The probe is called once at the
  start and once more after each interval that fits in the timeout. It may change the state
  \<open>s\<close> of the variables it has captured. A panic of the probe is a panic of the poller.
\<close>

fun pollLoop ::
  "nat \<Rightarrow> nat \<Rightarrow> ('s \<Rightarrow> nat \<Rightarrow> bool outcome \<times> 's) \<Rightarrow> 's \<Rightarrow> nat \<Rightarrow> unit outcome \<times> 's \<times> nat" where
  "pollLoop 0 interval condition s t =
     (let (r, s') = condition s t in
      case r of
        Panic p \<Rightarrow> (Panic p, s', t)
      | Err err \<Rightarrow> (Err err, s', t)
      | Ok done \<Rightarrow> if done then (Ok (), s', t) else (Err Timeout, s', t))"
| "pollLoop (Suc n) interval condition s t =
     (let (r, s') = condition s t in
      case r of
        Panic p \<Rightarrow> (Panic p, s', t)
      | Err err \<Rightarrow> (Err err, s', t)
      | Ok done \<Rightarrow> if done then (Ok (), s', t) else pollLoop n interval condition s' (t + interval))"

definition PollImmediate ::
  "int \<Rightarrow> int \<Rightarrow> ('s \<Rightarrow> nat \<Rightarrow> bool outcome \<times> 's) \<Rightarrow> 's \<Rightarrow> nat \<Rightarrow> unit outcome \<times> 's \<times> nat" where
  "PollImmediate interval timeout condition s t =
     pollLoop (nat (timeout div interval)) (nat interval) condition s t"

text \<open>
  \<^verbatim>\<open>WaitForResourceStatuses\<close> polls with the probe above; \<open>CS\<close> gives the answers of
  the typed clientset at each time.
\<close>

definition timeoutResourceReady :: int where
  "timeoutResourceReady = 15 * 60"

definition WaitForResourceStatuses :: "remote \<Rightarrow> (nat \<Rightarrow> clientSet) \<Rightarrow> nat \<Rightarrow> unit outcome \<times> nat" where
  "WaitForResourceStatuses R CS t =
     (case GetConfig (R t) of
        Some err \<Rightarrow> (Err (Wrap ''error creating config for core clientset'' err), t)
      | None \<Rightarrow>
          (let clientset = ctrlclientNew (R t) in
           case PollImmediate retryIntervalResourceReady timeoutResourceReady
                  (\<lambda>s t'. (resourceStatusesProbe clientset (CS t'), s)) () t of
             (r, s, t') \<Rightarrow> (r, t')))"

subsection \<open>The waits for a deletion\<close>

text \<open>
  The probes of the three waits list without options, in all namespaces: the namespace they
  are given goes into an error message only. The probe for clusters returns the error of the
  list call; the two others report not done and try again.
\<close>

definition clusterDeleteProbe :: "ext \<Rightarrow> string \<Rightarrow> bool outcome" where
  "clusterDeleteProbe X namespace =
     (case GetConfig X of
        Some err \<Rightarrow> Err (Wrap ''error creating config for core clientset'' err)
      | None \<Rightarrow>
          (case ctrlclientNew X of
             None \<Rightarrow> Panic NilDereference
           | Some clientset \<Rightarrow>
               (case ListClusters X \<lparr>optNamespace = '''', optLabelSelector = ''''\<rparr> of
                  Inl err \<Rightarrow>
                    Err (Wrap (''error listing cluster objects in namespace '' @ namespace) err)
                | Inr items \<Rightarrow> if length items > 0 then Ok False else Ok True)))"

definition machineSetsDeleteProbe :: "ext \<Rightarrow> string \<Rightarrow> bool outcome" where
  "machineSetsDeleteProbe X namespace =
     (case GetConfig X of
        Some err \<Rightarrow> Err (Wrap ''error creating config for core clientset'' err)
      | None \<Rightarrow>
          (case ctrlclientNew X of
             None \<Rightarrow> Panic NilDereference
           | Some clientset \<Rightarrow>
               (case ListMachineSets X \<lparr>optNamespace = '''', optLabelSelector = ''''\<rparr> of
                  Inl err \<Rightarrow> Ok False
                | Inr items \<Rightarrow> if length items > 0 then Ok False else Ok True)))"

definition machinesDeleteProbe :: "ext \<Rightarrow> string \<Rightarrow> bool outcome" where
  "machinesDeleteProbe X namespace =
     (case GetConfig X of
        Some err \<Rightarrow> Err (Wrap ''error creating config for core clientset'' err)
      | None \<Rightarrow>
          (case ctrlclientNew X of
             None \<Rightarrow> Panic NilDereference
           | Some clientset \<Rightarrow>
               (case ListMachines X \<lparr>optNamespace = '''', optLabelSelector = ''''\<rparr> of
                  Inl err \<Rightarrow> Ok False
                | Inr items \<Rightarrow> if length items > 0 then Ok False else Ok True)))"

definition waitForClusterDelete :: "remote \<Rightarrow> string \<Rightarrow> nat \<Rightarrow> unit outcome \<times> nat" where
  "waitForClusterDelete R namespace t =
     (case PollImmediate retryIntervalResourceDelete timeoutResourceDelete
             (\<lambda>s t'. (clusterDeleteProbe (R t') namespace, s)) () t of
        (r, s, t') \<Rightarrow> (r, t'))"

definition waitForMachineSetsDelete :: "remote \<Rightarrow> string \<Rightarrow> nat \<Rightarrow> unit outcome \<times> nat" where
  "waitForMachineSetsDelete R namespace t =
     (case PollImmediate retryIntervalResourceDelete timeoutResourceDelete
             (\<lambda>s t'. (machineSetsDeleteProbe (R t') namespace, s)) () t of
        (r, s, t') \<Rightarrow> (r, t'))"

definition waitForMachinesDelete :: "remote \<Rightarrow> string \<Rightarrow> nat \<Rightarrow> unit outcome \<times> nat" where
  "waitForMachinesDelete R namespace t =
     (case PollImmediate retryIntervalResourceDelete timeoutResourceDelete
             (\<lambda>s t'. (machinesDeleteProbe (R t') namespace, s)) () t of
        (r, s, t') \<Rightarrow> (r, t'))"

subsection \<open>DeleteClusters and DeleteMachines\<close>

text \<open>
  The two maps of the source: \<open>seen\<close> is the list of its keys in the order in which they
  were set, and the map from a namespace to the pointer to a list is a partial function,
  undefined where the Go map has no entry and gives the nil pointer. The loop over the
  objects of all namespaces reads the \<^verbatim>\<open>Items\<close> of the pointer that the map gives for the
  namespace: Go panics when that pointer is nil.
\<close>

fun namespacesLoop ::
  "'a Resource list \<Rightarrow> string list \<Rightarrow> (string \<rightharpoonup> 'a Resource list)
     \<Rightarrow> (string list \<times> (string \<rightharpoonup> 'a Resource list)) outcome" where
  "namespacesLoop [] seen toDelete = Ok (seen, toDelete)"
| "namespacesLoop (item # items) seen toDelete =
     (if Namespace (Meta item) \<in> set seen then namespacesLoop items seen toDelete
      else (case toDelete (Namespace (Meta item)) of
              None \<Rightarrow> Panic NilDereference
            | Some list \<Rightarrow>
                namespacesLoop items (seen @ [Namespace (Meta item)])
                  (toDelete(Namespace (Meta item) \<mapsto> list @ [item]))))"

text \<open>
  The loop over the namespaces seen. Go ranges over the keys of a map in no fixed order; the
  model takes them in the order in which they were set.
\<close>

fun clustersDeleteLoop ::
  "remote \<Rightarrow> client option \<Rightarrow> (string \<rightharpoonup> Cluster list) \<Rightarrow> string list \<Rightarrow> nat
     \<Rightarrow> unit outcome \<times> nat" where
  "clustersDeleteLoop R clientset clustersToDelete [] t = (Ok (), t)"
| "clustersDeleteLoop R clientset clustersToDelete (ns # seen) t =
     (case clientset of
        None \<Rightarrow> (Panic NilDereference, t)
      | Some client \<Rightarrow>
     (case DeleteClusterList (R t) (clustersToDelete ns) of
        Some err \<Rightarrow> (Err (Wrap (''error deleting Clusters in namespace '' @ ns) err), t)
      | None \<Rightarrow>
          (case waitForClusterDelete R ns t of
             (Panic p, t') \<Rightarrow> (Panic p, t')
           | (Err err, t') \<Rightarrow>
               (Err (Wrap (''error waiting for Cluster(s) deletion to complete in namespace '' @ ns) err), t')
           | (Ok u, t') \<Rightarrow> clustersDeleteLoop R clientset clustersToDelete seen t')))"

definition DeleteClusters :: "remote \<Rightarrow> string \<Rightarrow> nat \<Rightarrow> unit outcome \<times> nat" where
  "DeleteClusters R namespace t =
     (case GetConfig (R t) of
        Some err \<Rightarrow> (Err (Wrap ''error creating config for core clientset'' err), t)
      | None \<Rightarrow>
          (let clientset = ctrlclientNew (R t) in
           if namespace \<noteq> '''' then clustersDeleteLoop R clientset Map.empty [namespace] t
           else (case clientset of
                   None \<Rightarrow> (Panic NilDereference, t)
                 | Some client \<Rightarrow>
                (case ListClusters (R t) \<lparr>optNamespace = '''', optLabelSelector = ''''\<rparr> of
                  Inl err \<Rightarrow> (Err (Wrap ''error listing Clusters in all namespaces'' err), t)
                | Inr items \<Rightarrow>
                    (case namespacesLoop items [] Map.empty of
                       Panic p \<Rightarrow> (Panic p, t)
                     | Err err \<Rightarrow> (Err err, t)
                     | Ok (seen, clustersToDelete) \<Rightarrow>
                         clustersDeleteLoop R clientset clustersToDelete seen t)))))"

text \<open>
  \<^verbatim>\<open>DeleteMachines\<close> is the same function on machines, and after the delete call it
  calls \<^verbatim>\<open>waitForMachineSetsDelete\<close>.
\<close>

fun machinesDeleteLoop ::
  "remote \<Rightarrow> client option \<Rightarrow> (string \<rightharpoonup> Machine list) \<Rightarrow> string list \<Rightarrow> nat
     \<Rightarrow> unit outcome \<times> nat" where
  "machinesDeleteLoop R clientset machinesToDelete [] t = (Ok (), t)"
| "machinesDeleteLoop R clientset machinesToDelete (ns # seen) t =
     (case clientset of
        None \<Rightarrow> (Panic NilDereference, t)
      | Some client \<Rightarrow>
     (case DeleteMachineList (R t) (machinesToDelete ns) of
        Some err \<Rightarrow> (Err (Wrap (''error deleting Machines in namespace '' @ ns) err), t)
      | None \<Rightarrow>
          (case waitForMachineSetsDelete R ns t of
             (Panic p, t') \<Rightarrow> (Panic p, t')
           | (Err err, t') \<Rightarrow>
               (Err (Wrap (''error waiting for Machine(s) deletion to complete in namespace '' @ ns) err), t')
           | (Ok u, t') \<Rightarrow> machinesDeleteLoop R clientset machinesToDelete seen t')))"

definition DeleteMachines :: "remote \<Rightarrow> string \<Rightarrow> nat \<Rightarrow> unit outcome \<times> nat" where
  "DeleteMachines R namespace t =
     (case GetConfig (R t) of
        Some err \<Rightarrow> (Err (Wrap ''error creating config for core clientset'' err), t)
      | None \<Rightarrow>
          (let clientset = ctrlclientNew (R t) in
           if namespace \<noteq> '''' then machinesDeleteLoop R clientset Map.empty [namespace] t
           else (case clientset of
                   None \<Rightarrow> (Panic NilDereference, t)
                 | Some client \<Rightarrow>
                (case ListMachines (R t) \<lparr>optNamespace = '''', optLabelSelector = ''''\<rparr> of
                  Inl err \<Rightarrow> (Err (Wrap ''error listing Machines in all namespaces'' err), t)
                | Inr items \<Rightarrow>
                    (case namespacesLoop items [] Map.empty of
                       Panic p \<Rightarrow> (Panic p, t)
                     | Err err \<Rightarrow> (Err err, t)
                     | Ok (seen, machinesToDelete) \<Rightarrow>
                         machinesDeleteLoop R clientset machinesToDelete seen t)))))"

subsection \<open>CreateMachines\<close>

fun IsNotFound :: "error \<Rightarrow> bool" where
  "IsNotFound (NotFound what) = True"
| "IsNotFound other = False"

text \<open>
  The probe of \<^verbatim>\<open>waitForMachineReady\<close> has captured the pointer \<^verbatim>\<open>machine\<close>: the state
  of the probe is the machine it points to, \<open>None\<close> when the pointer is nil. Its first
  statement reads \<^verbatim>\<open>machine.Name\<close>, which panics on a nil pointer. The get call writes
  the machine it fetched through the pointer; when it fails with not found the probe goes on
  with the machine as it is.
\<close>

definition machineReadyProbe ::
  "remote \<Rightarrow> client option \<Rightarrow> Machine option \<Rightarrow> nat \<Rightarrow> bool outcome \<times> Machine option" where
  "machineReadyProbe R clientset machine t =
     (case machine of
        None \<Rightarrow> (Panic NilDereference, None)
      | Some m \<Rightarrow>
          (case clientset of
             None \<Rightarrow> (Panic NilDereference, Some m)
           | Some client \<Rightarrow>
          (case GetMachine (R t) (Namespace (Meta m)) (Name (Meta m)) of
             Inl err \<Rightarrow>
               if \<not> IsNotFound err then (Ok False, Some m)
               else (Ok (NodeRef (Status m) \<noteq> None \<or> length (Annotations (Meta m)) > 0), Some m)
           | Inr fetched \<Rightarrow>
               (Ok (NodeRef (Status fetched) \<noteq> None \<or> length (Annotations (Meta fetched)) > 0),
                Some fetched))))"

definition waitForMachineReady :: "remote \<Rightarrow> Machine option \<Rightarrow> nat \<Rightarrow> unit outcome \<times> nat" where
  "waitForMachineReady R machine t =
     (case GetConfig (R t) of
        Some err \<Rightarrow> (Err (Wrap ''error creating config for core clientset'' err), t)
      | None \<Rightarrow>
          (let clientset = ctrlclientNew (R t);
               timeout = (case MachineReadyTimeout (R t) of
                            None \<Rightarrow> timeoutMachineReady
                          | Some minutes \<Rightarrow> minutes * 60)
           in case PollImmediate retryIntervalResourceReady timeout
                     (machineReadyProbe R clientset) machine t of
                (r, s, t') \<Rightarrow> (r, t')))"

text \<open>
  \<^verbatim>\<open>CreateMachines\<close> starts one goroutine for each machine and waits for all of them.
  The goroutines share the variable \<^verbatim>\<open>err\<close> of the function, the \<^verbatim>\<open>sync.Once\<close> and
  \<^verbatim>\<open>gerr\<close>. A goroutine takes two steps: at \<open>AtCreate\<close> it sets the namespace of its
  machine, issues the create call and assigns the result to \<^verbatim>\<open>err\<close>; at \<open>AtCheck\<close> it
  reads \<^verbatim>\<open>err\<close> and either records the error, or calls \<^verbatim>\<open>waitForMachineReady\<close> with
  its local \<^verbatim>\<open>createdMachine\<close>, a pointer that is declared and never assigned.
\<close>

datatype position = AtCreate | AtCheck | Finished

record creation =
  ErrVar :: "error option"
  OnceDone :: bool
  Gerr :: "error option"
  Positions :: "position list"
  Calls :: "call list"
  Panicked :: "panic option"

definition errOnceDo :: "error \<Rightarrow> creation \<Rightarrow> creation" where
  "errOnceDo e c = (if OnceDone c then c else c\<lparr>OnceDone := True, Gerr := Some e\<rparr>)"

text \<open>
  One step of the goroutine of the machine at index \<open>i\<close>. A panic in a goroutine ends
  the program: no goroutine takes a step after it.
\<close>

definition goroutineStep ::
  "remote \<Rightarrow> nat \<Rightarrow> client option \<Rightarrow> string \<Rightarrow> Machine list \<Rightarrow> nat \<Rightarrow> creation \<Rightarrow> creation" where
  "goroutineStep R t clientset namespace machines i c =
     (if i \<ge> length machines \<or> Panicked c \<noteq> None then c
      else (case Positions c ! i of
        AtCreate \<Rightarrow>
          (let machine = (machines ! i)\<lparr>Meta := (Meta (machines ! i))\<lparr>Namespace := namespace\<rparr>\<rparr> in
           case clientset of
             None \<Rightarrow> c\<lparr>Panicked := Some NilDereference\<rparr>
           | Some client \<Rightarrow>
               c\<lparr>ErrVar := CreateMachine (R t) machine,
                 Calls := Calls c @ [CreateCall machine],
                 Positions := (Positions c)[i := AtCheck]\<rparr>)
      | AtCheck \<Rightarrow>
          (case ErrVar c of
             Some err \<Rightarrow>
               (errOnceDo (Wrap (''error creating a machine object in namespace '' @ namespace) err) c)
                 \<lparr>Positions := (Positions c)[i := Finished]\<rparr>
           | None \<Rightarrow>
               (let createdMachine = None in
                case fst (waitForMachineReady R createdMachine t) of
                  Panic p \<Rightarrow> c\<lparr>Panicked := Some p\<rparr>
                | Err err \<Rightarrow> (errOnceDo err c)\<lparr>Positions := (Positions c)[i := Finished]\<rparr>
                | Ok u \<Rightarrow> c\<lparr>Positions := (Positions c)[i := Finished]\<rparr>))
      | Finished \<Rightarrow> c))"

text \<open>
  The scheduler is a list of indices: the goroutine named next takes its next step.
\<close>

fun runSchedule ::
  "remote \<Rightarrow> nat \<Rightarrow> client option \<Rightarrow> string \<Rightarrow> Machine list \<Rightarrow> nat list \<Rightarrow> creation \<Rightarrow> creation" where
  "runSchedule R t clientset namespace machines [] c = c"
| "runSchedule R t clientset namespace machines (i # schedule) c =
     runSchedule R t clientset namespace machines schedule
       (goroutineStep R t clientset namespace machines i c)"

text \<open>
  The result is \<open>None\<close> when the schedule ends before every goroutine has finished:
  \<^verbatim>\<open>wg.Wait()\<close> has not returned. The calls issued come with it. When the goroutines
  start, \<^verbatim>\<open>err\<close> holds the error of \<^verbatim>\<open>ctrlclient.New\<close>, its last assignment.
\<close>

definition CreateMachines ::
  "remote \<Rightarrow> nat \<Rightarrow> Machine list \<Rightarrow> string \<Rightarrow> nat list \<Rightarrow> unit outcome option \<times> call list" where
  "CreateMachines R t machines namespace schedule =
     (case GetConfig (R t) of
        Some err \<Rightarrow> (Some (Err (Wrap ''error creating config for core clientset'' err)), [])
      | None \<Rightarrow>
          (let clientset = ctrlclientNew (R t);
               c = runSchedule R t clientset namespace machines schedule
                     \<lparr>ErrVar = New (R t), OnceDone = False, Gerr = None,
                      Positions = replicate (length machines) AtCreate,
                      Calls = [], Panicked = None\<rparr>
           in case Panicked c of
                Some p \<Rightarrow> (Some (Panic p), Calls c)
              | None \<Rightarrow>
                  if list_all (\<lambda>p. p = Finished) (Positions c)
                  then (Some (case Gerr c of None \<Rightarrow> Ok () | Some gerr \<Rightarrow> Err gerr), Calls c)
                  else (None, Calls c)))"

subsection \<open>Test doubles\<close>

text \<open>
  A remote without objects on which every call succeeds, and an object with a kind, a
  namespace, a name and a status and nothing else.
\<close>

definition quiet :: ext where
  "quiet =
     \<lparr>GetConfig = None,
      New = None,
      SetLabelSelector = (\<lambda>selector. None),
      ListClusters = (\<lambda>opts. Inr []),
      ListMachineDeployments = (\<lambda>opts. Inr []),
      ListMachineSets = (\<lambda>opts. Inr []),
      ListMachines = (\<lambda>opts. Inr []),
      GetMachine = (\<lambda>namespace name. Inl (NotFound name)),
      CreateMachine = (\<lambda>machine. None),
      UpdateMachine = (\<lambda>machine. None),
      DeleteMachine = (\<lambda>machine opts. None),
      DeleteClusterList = (\<lambda>list. None),
      DeleteMachineList = (\<lambda>list. None),
      MachineReadyTimeout = None\<rparr>"

definition object :: "string \<Rightarrow> string \<Rightarrow> string \<Rightarrow> 's \<Rightarrow> 's Resource" where
  "object kind namespace name status =
     \<lparr>Kind = kind,
      Meta = \<lparr>Name = name, Namespace = namespace, Annotations = [],
               OwnerReferences = [], Finalizers = []\<rparr>,
      Status = status\<rparr>"

section \<open>Properties\<close>

subsection \<open>ExtractControlPlaneMachines\<close>

lemma ExtractLoop_filter:
  "ExtractLoop P ms cp nodes = (cp @ filter P ms, nodes @ filter (\<lambda>m. \<not> P m) ms)"
  by (induction ms arbitrary: cp nodes) simp_all

lemma mset_filter_split: "mset (filter P ms) + mset (filter (\<lambda>m. \<not> P m) ms) = mset ms"
  by (induction ms) simp_all

text \<open>
  Claim C9. \<^verbatim>\<open>ExtractControlPlaneMachines\<close> returns an error exactly when no machine of
  the list is a control-plane machine. Otherwise it returns the control-plane machines of the
  list, in the order of the list, and the other machines of the list, in the order of the
  list; every machine of the list is in exactly one of the two, as often as in the list.
\<close>

theorem ExtractControlPlaneMachines_partition:
  "((\<exists>err. ExtractControlPlaneMachines P ms = Err err) \<longleftrightarrow> \<not> (\<exists>m \<in> set ms. P m))
   \<and> ExtractControlPlaneMachines P ms \<noteq> Panic p
   \<and> (\<forall>cp nodes. ExtractControlPlaneMachines P ms = Ok (cp, nodes) \<longrightarrow>
          cp = filter P ms \<and> nodes = filter (\<lambda>m. \<not> P m) ms
        \<and> mset cp + mset nodes = mset ms
        \<and> set cp \<inter> set nodes = {})"
proof -
  have none: "filter P ms = [] \<longleftrightarrow> \<not> (\<exists>m \<in> set ms. P m)"
    by (simp add: filter_empty_conv)
  show ?thesis
  proof (cases "filter P ms = []")
    case True
    then show ?thesis
      using none by (simp add: ExtractControlPlaneMachines_def ExtractLoop_filter)
  next
    case False
    then have "ExtractControlPlaneMachines P ms = Ok (filter P ms, filter (\<lambda>m. \<not> P m) ms)"
      by (simp add: ExtractControlPlaneMachines_def ExtractLoop_filter)
    then show ?thesis
      using False none by (auto simp: mset_filter_split)
  qed
qed

theorem ExtractControlPlaneMachines_partition_witness:
  "ExtractControlPlaneMachines (\<lambda>m. m = ''cp'') [''w1'', ''cp'', ''w2''] = Ok ([''cp''], [''w1'', ''w2''])
   \<and> [''cp''] = filter (\<lambda>m. m = ''cp'') [''w1'', ''cp'', ''w2'']
   \<and> [''w1'', ''w2''] = filter (\<lambda>m. \<not> m = ''cp'') [''w1'', ''cp'', ''w2'']
   \<and> (\<exists>err. ExtractControlPlaneMachines (\<lambda>m. m = ''cp'') [''w1'', ''w2''] = Err err)"
proof -
  have run: "ExtractControlPlaneMachines (\<lambda>m. m = ''cp'') [''w1'', ''cp'', ''w2'']
               = Ok ([''cp''], [''w1'', ''w2''])"
    by (simp add: ExtractControlPlaneMachines_def)
  have none: "\<not> (\<exists>m \<in> set [''w1'', ''w2'']. m = ''cp'')"
    by simp
  from ExtractControlPlaneMachines_partition
         [of "\<lambda>m. m = ''cp''" "[''w1'', ''cp'', ''w2'']" NilDereference] run
  have "[''cp''] = filter (\<lambda>m. m = ''cp'') [''w1'', ''cp'', ''w2'']
        \<and> [''w1'', ''w2''] = filter (\<lambda>m. \<not> m = ''cp'') [''w1'', ''cp'', ''w2'']"
    by blast
  moreover from ExtractControlPlaneMachines_partition
         [of "\<lambda>m. m = ''cp''" "[''w1'', ''w2'']" NilDereference] none
  have "\<exists>err. ExtractControlPlaneMachines (\<lambda>m. m = ''cp'') [''w1'', ''w2''] = Err err"
    by blast
  ultimately show ?thesis using run by blast
qed

subsection \<open>GetCluster\<close>

text \<open>
  Claim C10. When the listing of the clusters of the namespace succeeds and no cluster of the
  list has the name, \<^verbatim>\<open>GetCluster\<close> returns a nil cluster and a nil error.
\<close>

theorem GetCluster_absent_is_nil:
  assumes "GetClusters X ns = Ok clusters"
    and "\<forall>c \<in> set clusters. Name (Meta c) \<noteq> name"
  shows "GetCluster X name ns = Ok None"
proof -
  have "find (\<lambda>nc. Name (Meta nc) = name) clusters = None"
    using assms(2) by (simp add: find_None_iff)
  then show ?thesis
    using assms(1) by (simp add: GetCluster_def)
qed

theorem GetCluster_absent_is_nil_witness:
  "GetCluster
     (quiet\<lparr>ListClusters := (\<lambda>opts. Inr [object ''Cluster'' ''ns1'' ''c1'' emptyClusterStatus])\<rparr>)
     ''c2'' ''ns1'' = Ok None"
  by (rule GetCluster_absent_is_nil
        [where clusters = "[object ''Cluster'' ''ns1'' ''c1'' emptyClusterStatus]"])
     (simp_all add: GetClusters_def ctrlclientNew_def quiet_def object_def)

subsection \<open>The objects of a cluster\<close>

lemma ownerRefsLoop_replicate:
  "ownerRefsLoop cluster item orefs acc =
     acc @ replicate
             (length (filter (\<lambda>oref. orKind oref = Kind cluster \<and> orName oref = Name (Meta cluster))
                        orefs))
             item"
  by (induction orefs arbitrary: acc) (simp_all add: replicate_append_same)

lemma itemsLoop_concat:
  "itemsLoop cluster items acc =
     acc @ concat (map (\<lambda>item. replicate
             (length (filter (\<lambda>oref. orKind oref = Kind cluster \<and> orName oref = Name (Meta cluster))
                        (OwnerReferences (Meta item))))
             item) items)"
  by (induction items arbitrary: acc) (simp_all add: ownerRefsLoop_replicate)

text \<open>
  The loop of \<^verbatim>\<open>GetMachineSetsForCluster\<close> and \<^verbatim>\<open>GetMachinesForCluster\<close> returns the
  candidates that have an owner reference with the kind and the name of the cluster, each as
  often as it has such references.
\<close>

lemma set_itemsLoop:
  "set (itemsLoop cluster items []) =
     {item \<in> set items.
        list_ex (\<lambda>oref. orKind oref = Kind cluster \<and> orName oref = Name (Meta cluster))
          (OwnerReferences (Meta item))}"
  by (auto simp: itemsLoop_concat list_ex_iff filter_empty_conv)

lemma GetMachineSetsForCluster_set:
  "GetMachineSetsForCluster X cluster = Ok machineSets \<Longrightarrow>
     \<exists>items. ListMachineSets X \<lparr>optNamespace = '''', optLabelSelector = clusterSelector cluster\<rparr>
               = Inr items
       \<and> set machineSets = {item \<in> set items.
            list_ex (\<lambda>oref. orKind oref = Kind cluster \<and> orName oref = Name (Meta cluster))
              (OwnerReferences (Meta item))}"
  by (auto simp: GetMachineSetsForCluster_def set_itemsLoop split: option.splits sum.splits)

lemma GetMachinesForCluster_set:
  "GetMachinesForCluster X cluster = Ok machines \<Longrightarrow>
     \<exists>items. ListMachines X \<lparr>optNamespace = '''', optLabelSelector = clusterSelector cluster\<rparr>
               = Inr items
       \<and> set machines = {item \<in> set items.
            list_ex (\<lambda>oref. orKind oref = Kind cluster \<and> orName oref = Name (Meta cluster))
              (OwnerReferences (Meta item))}"
  by (auto simp: GetMachinesForCluster_def set_itemsLoop split: option.splits sum.splits)

text \<open>A machine set with two owner references to the cluster is returned twice.\<close>

lemma GetMachineSetsForCluster_twice:
  "GetMachineSetsForCluster
     (quiet\<lparr>ListMachineSets := (\<lambda>opts. Inr
        [(object ''MachineSet'' ''default'' ''ms1'' emptyMachineSetStatus)
           \<lparr>Meta := \<lparr>Name = ''ms1'', Namespace = ''default'', Annotations = [],
                     OwnerReferences = [\<lparr>orKind = ''Cluster'', orName = ''c1''\<rparr>,
                                        \<lparr>orKind = ''Cluster'', orName = ''c1''\<rparr>],
                     Finalizers = []\<rparr>\<rparr>])\<rparr>)
     (object ''Cluster'' ''default'' ''c1'' emptyClusterStatus)
   = Ok (replicate 2
       ((object ''MachineSet'' ''default'' ''ms1'' emptyMachineSetStatus)
           \<lparr>Meta := \<lparr>Name = ''ms1'', Namespace = ''default'', Annotations = [],
                     OwnerReferences = [\<lparr>orKind = ''Cluster'', orName = ''c1''\<rparr>,
                                        \<lparr>orKind = ''Cluster'', orName = ''c1''\<rparr>],
                     Finalizers = []\<rparr>\<rparr>))"
  by (simp add: GetMachineSetsForCluster_def ctrlclientNew_def quiet_def object_def
        numeral_2_eq_2)

lemma mdOwnerRefsLoop_nil:
  "mdOwnerRefsLoop cluster idx orefs [] =
     (if list_ex (\<lambda>oref. orKind oref = Kind cluster \<and> orName oref = Name (Meta cluster)) orefs
      then Panic IndexOutOfRange else Ok [])"
  by (induction orefs) simp_all

text \<open>
  The loop of \<^verbatim>\<open>GetMachineDeploymentsForCluster\<close> returns no candidate at all: it panics at
  the first candidate that the cluster owns and returns the empty list when there is none.
\<close>

lemma mdItemsLoop_nil:
  "mdItemsLoop cluster idx items [] =
     (if list_ex (\<lambda>md. list_ex (\<lambda>oref. orKind oref = Kind cluster \<and> orName oref = Name (Meta cluster))
                          (OwnerReferences (Meta md))) items
      then Panic IndexOutOfRange else Ok [])"
  by (induction items arbitrary: idx) (simp_all add: mdOwnerRefsLoop_nil)

text \<open>
  Claim C1, on the code: the cluster \<open>c1\<close> of kind \<open>Cluster\<close> and one fetched machine
  deployment with an owner reference of kind \<open>Cluster\<close> and name \<open>c1\<close>. The claim has the
  function return that machine deployment; \<^verbatim>\<open>GetMachineDeploymentsForCluster\<close> panics with
  an index out of range.
\<close>

theorem GetMachineDeploymentsForCluster_panics:
  "GetMachineDeploymentsForCluster
     (quiet\<lparr>ListMachineDeployments := (\<lambda>opts. Inr
        [(object ''MachineDeployment'' ''default'' ''md1'' emptyMachineDeploymentStatus)
           \<lparr>Meta := \<lparr>Name = ''md1'', Namespace = ''default'', Annotations = [],
                     OwnerReferences = [\<lparr>orKind = ''Cluster'', orName = ''c1''\<rparr>],
                     Finalizers = []\<rparr>\<rparr>])\<rparr>)
     (object ''Cluster'' ''default'' ''c1'' emptyClusterStatus)
   = Panic IndexOutOfRange"
  by (simp add: GetMachineDeploymentsForCluster_def ctrlclientNew_def quiet_def object_def)

subsection \<open>The validation of a cluster template\<close>

lemma validate_passes_iff:
  "validate c = None \<longleftrightarrow>
     IsZero (ControlPlaneEndpoint (ResourceSpec (Template (TemplateSpec c))))
     \<and> \<not> Paused (ResourceSpec (Template (TemplateSpec c)))"
  by (simp add: validate_def Let_def)

text \<open>Every field error of the validation names the control-plane endpoint.\<close>

lemma validate_fields:
  "validate c = Some (NewInvalid kind name errs) \<Longrightarrow>
     list_all (\<lambda>e. Field e = ''spec.template.spec.controlPlaneEndpoint'') errs"
  by (auto simp: validate_def Let_def Invalid_def Child_def NewPath_def split: if_splits)

text \<open>
  Claim C8, on the code: a cluster template with a zero control-plane endpoint and
  \<open>paused\<close> set. The claim has the one field error name the violated field, \<open>paused\<close>;
  the field error of \<^verbatim>\<open>validate\<close> names \<open>spec.template.spec.controlPlaneEndpoint\<close>.
\<close>

theorem validate_paused_names_endpoint:
  "validate
     \<lparr>TemplateMeta = \<lparr>Name = ''t1'', Namespace = ''default'', Annotations = [],
                      OwnerReferences = [], Finalizers = []\<rparr>,
      TemplateSpec = \<lparr>Template = \<lparr>ResourceSpec =
        \<lparr>ControlPlaneEndpoint = \<lparr>Host = '''', Port = 0\<rparr>, Paused = True\<rparr>\<rparr>\<rparr>\<rparr>
   = Some (NewInvalid ''ClusterTemplate'' ''t1''
       [\<lparr>ErrType = ErrorTypeInvalid, Field = ''spec.template.spec.controlPlaneEndpoint'',
         Bad = BoolValue True, Detail = ''may not be populated for cluster templates''\<rparr>])"
  by (simp add: validate_def IsZero_def Invalid_def Child_def NewPath_def)

subsection \<open>WaitForResourceStatuses\<close>

lemma clustersLoop_iff:
  "clustersLoop items \<longleftrightarrow>
     (\<forall>c \<in> set items. Status c \<noteq> emptyClusterStatus \<and> ClusterProviderStatus (Status c) \<noteq> None)"
  by (induction items) auto

lemma machineDeploymentsLoop_iff:
  "machineDeploymentsLoop items \<longleftrightarrow> (\<forall>md \<in> set items. Status md \<noteq> emptyMachineDeploymentStatus)"
  by (induction items) auto

lemma machineSetsLoop_iff:
  "machineSetsLoop items \<longleftrightarrow> (\<forall>ms \<in> set items. Status ms \<noteq> emptyMachineSetStatus)"
  by (induction items) auto

lemma machinesLoop_iff:
  "machinesLoop items \<longleftrightarrow>
     (\<forall>m \<in> set items. Status m \<noteq> emptyMachineStatus \<and> MachineProviderStatus (Status m) \<noteq> None)"
  by (induction items) auto

text \<open>
  Claim C7, as stated, with a client that was built, at a remote whose list of clusters
  fails and that has no other objects: every listed object passes its check, since nothing
  is listed, and the probe reports not ready. The objects listed by a call that failed are
  none.
\<close>

theorem resourceStatusesProbe_list_error_counterexample:
  "\<not> (resourceStatusesProbe (Some Client)
          \<lparr>Clusters = Inl (RemoteError ''connection refused''), MachineDeployments = Inr [],
           MachineSets = Inr [], Machines = Inr []\<rparr> = Ok True
       \<longleftrightarrow>
         (\<forall>c \<in> set (case Clusters
                          \<lparr>Clusters = Inl (RemoteError ''connection refused''),
                           MachineDeployments = Inr [], MachineSets = Inr [], Machines = Inr []\<rparr> of
                        Inl err \<Rightarrow> [] | Inr items \<Rightarrow> items).
              Status c \<noteq> emptyClusterStatus \<and> ClusterProviderStatus (Status c) \<noteq> None)
       \<and> (\<forall>md \<in> set ([] :: MachineDeployment list). Status md \<noteq> emptyMachineDeploymentStatus)
       \<and> (\<forall>ms \<in> set ([] :: MachineSet list). Status ms \<noteq> emptyMachineSetStatus)
       \<and> (\<forall>m \<in> set ([] :: Machine list).
              Status m \<noteq> emptyMachineStatus \<and> MachineProviderStatus (Status m) \<noteq> None))"
  by (simp add: resourceStatusesProbe_def)

text \<open>
  Claim C7, amended. With a controller-runtime client that was built, one tick of the probe
  of \<^verbatim>\<open>WaitForResourceStatuses\<close> reports ready
  if and only if its four list calls succeed and every listed cluster has a non-empty status
  and a set provider status, every listed machine deployment and machine set has a non-empty
  status, and every listed machine has a non-empty status and a set provider status. In every
  other case it reports not ready, without an error: so does a tick with a listed object of
  any kind whose status is empty, and a tick with a list call that fails.
\<close>

theorem resourceStatusesProbe_ready_iff:
  "(resourceStatusesProbe (Some client) cs = Ok True \<longleftrightarrow>
      (\<exists>clusters machineDeployments machineSets machines.
          Clusters cs = Inr clusters
        \<and> MachineDeployments cs = Inr machineDeployments
        \<and> MachineSets cs = Inr machineSets
        \<and> Machines cs = Inr machines
        \<and> (\<forall>c \<in> set clusters.
              Status c \<noteq> emptyClusterStatus \<and> ClusterProviderStatus (Status c) \<noteq> None)
        \<and> (\<forall>md \<in> set machineDeployments. Status md \<noteq> emptyMachineDeploymentStatus)
        \<and> (\<forall>ms \<in> set machineSets. Status ms \<noteq> emptyMachineSetStatus)
        \<and> (\<forall>m \<in> set machines.
              Status m \<noteq> emptyMachineStatus \<and> MachineProviderStatus (Status m) \<noteq> None)))
   \<and> (resourceStatusesProbe (Some client) cs = Ok True
        \<or> resourceStatusesProbe (Some client) cs = Ok False)"
  unfolding resourceStatusesProbe_def
  by (simp add: clustersLoop_iff machineDeploymentsLoop_iff machineSetsLoop_iff machinesLoop_iff
        split: sum.splits)

theorem resourceStatusesProbe_ready_iff_witness:
  "resourceStatusesProbe (Some Client)
     \<lparr>Clusters = Inr [object ''Cluster'' ''ns1'' ''c1''
        \<lparr>APIEndpoints = [], ClusterProviderStatus = Some ''provisioned'', ClusterStatusOther = []\<rparr>],
      MachineDeployments = Inr [],
      MachineSets = Inr [object ''MachineSet'' ''ns1'' ''ms1''
        \<lparr>MachineSetStatusOther = [''replicas: 1'']\<rparr>],
      Machines = Inr [object ''Machine'' ''ns1'' ''m1''
        \<lparr>NodeRef = None, MachineProviderStatus = Some ''running'', MachineStatusOther = []\<rparr>]\<rparr>
   = Ok True
   \<and> resourceStatusesProbe (Some Client)
     \<lparr>Clusters = Inr [object ''Cluster'' ''ns1'' ''c1''
        \<lparr>APIEndpoints = [], ClusterProviderStatus = Some ''provisioned'', ClusterStatusOther = []\<rparr>],
      MachineDeployments = Inr [],
      MachineSets = Inr [object ''MachineSet'' ''ns1'' ''ms1'' emptyMachineSetStatus],
      Machines = Inr []\<rparr>
   = Ok False"
proof -
  let ?ready =
    "\<lparr>Clusters = Inr [object ''Cluster'' ''ns1'' ''c1''
        \<lparr>APIEndpoints = [], ClusterProviderStatus = Some ''provisioned'', ClusterStatusOther = []\<rparr>],
      MachineDeployments = Inr [],
      MachineSets = Inr [object ''MachineSet'' ''ns1'' ''ms1''
        \<lparr>MachineSetStatusOther = [''replicas: 1'']\<rparr>],
      Machines = Inr [object ''Machine'' ''ns1'' ''m1''
        \<lparr>NodeRef = None, MachineProviderStatus = Some ''running'', MachineStatusOther = []\<rparr>]\<rparr>"
  let ?waiting =
    "\<lparr>Clusters = Inr [object ''Cluster'' ''ns1'' ''c1''
        \<lparr>APIEndpoints = [], ClusterProviderStatus = Some ''provisioned'', ClusterStatusOther = []\<rparr>],
      MachineDeployments = Inr ([] :: MachineDeployment list),
      MachineSets = Inr [object ''MachineSet'' ''ns1'' ''ms1'' emptyMachineSetStatus],
      Machines = Inr ([] :: Machine list)\<rparr>"
  have "resourceStatusesProbe (Some Client) ?ready = Ok True"
    using resourceStatusesProbe_ready_iff [of Client ?ready]
    by (simp add: object_def emptyClusterStatus_def emptyMachineSetStatus_def
          emptyMachineStatus_def)
  moreover have "resourceStatusesProbe (Some Client) ?waiting = Ok False"
    using resourceStatusesProbe_ready_iff [of Client ?waiting]
    by (auto simp: object_def)
  ultimately show ?thesis by simp
qed

text \<open>On the nil client the probe panics at its first list call.\<close>

lemma resourceStatusesProbe_nil_client:
  "resourceStatusesProbe None cs = Panic NilDereference"
  by (simp add: resourceStatusesProbe_def)

subsection \<open>ForceDeleteMachine\<close>

text \<open>
  Claim C6, as stated, at an existing machine with a finalizer whose update the server
  refuses: the update call is issued and no delete call follows it.
\<close>

theorem ForceDeleteMachine_update_fails_counterexample:
  "ForceDeleteMachine
     (quiet\<lparr>GetMachine := (\<lambda>namespace name.
               Inr ((object ''Machine'' namespace name emptyMachineStatus)
                      \<lparr>Meta := \<lparr>Name = name, Namespace = namespace, Annotations = [],
                                OwnerReferences = [], Finalizers = [''machine.cluster.k8s.io'']\<rparr>\<rparr>)),
            UpdateMachine := (\<lambda>machine. Some (RemoteError ''conflict''))\<rparr>)
     ''ns1'' ''m1''
   = (Err (Wrap ''error removing finalizer for Machine ns1/m1'' (RemoteError ''conflict'')),
      [GetCall ''ns1'' ''m1'',
       UpdateCall (object ''Machine'' ''ns1'' ''m1'' emptyMachineStatus)])"
  by (simp add: ForceDeleteMachine_def ctrlclientNew_def quiet_def object_def)

text \<open>
  Claim C6, amended. When the configuration of the client is obtained and the client is
  built, \<^verbatim>\<open>ForceDeleteMachine\<close> on a machine that the get call returns issues an update call
  with that machine and an empty finalizer set; when the update succeeds a delete call with
  foreground propagation follows it and no other call; when the update fails the function
  returns the wrapped error of the update and issues no delete call. On a machine whose get
  call fails, as it does with not found for an absent machine, it returns the wrapped error
  of the get call and issues neither an update nor a delete call.
\<close>

theorem ForceDeleteMachine_calls:
  assumes "GetConfig X = None" and "New X = None"
  shows "(\<forall>m. GetMachine X namespace name = Inr m \<longrightarrow>
            (UpdateMachine X (m\<lparr>Meta := (Meta m)\<lparr>Finalizers := []\<rparr>\<rparr>) = None \<longrightarrow>
               snd (ForceDeleteMachine X namespace name) =
                 [GetCall namespace name,
                  UpdateCall (m\<lparr>Meta := (Meta m)\<lparr>Finalizers := []\<rparr>\<rparr>),
                  DeleteCall (m\<lparr>Meta := (Meta m)\<lparr>Finalizers := []\<rparr>\<rparr>)
                    [PropagationPolicy DeletePropagationForeground]])
          \<and> (\<forall>err. UpdateMachine X (m\<lparr>Meta := (Meta m)\<lparr>Finalizers := []\<rparr>\<rparr>) = Some err \<longrightarrow>
               ForceDeleteMachine X namespace name =
                 (Err (Wrap (''error removing finalizer for Machine '' @ namespace @ ''/'' @ name) err),
                  [GetCall namespace name,
                   UpdateCall (m\<lparr>Meta := (Meta m)\<lparr>Finalizers := []\<rparr>\<rparr>)])))
       \<and> (\<forall>err. GetMachine X namespace name = Inl err \<longrightarrow>
            ForceDeleteMachine X namespace name =
              (Err (Wrap (''error getting Machine '' @ namespace @ ''/'' @ name) err),
               [GetCall namespace name]))"
  using assms
  by (simp add: ForceDeleteMachine_def ctrlclientNew_def Let_def split: option.splits)

theorem ForceDeleteMachine_calls_witness:
  "snd (ForceDeleteMachine
     (quiet\<lparr>GetMachine := (\<lambda>namespace name.
               Inr ((object ''Machine'' namespace name emptyMachineStatus)
                      \<lparr>Meta := \<lparr>Name = name, Namespace = namespace, Annotations = [],
                                OwnerReferences = [], Finalizers = [''machine.cluster.k8s.io'']\<rparr>\<rparr>))\<rparr>)
     ''ns1'' ''m1'')
   = [GetCall ''ns1'' ''m1'',
      UpdateCall (object ''Machine'' ''ns1'' ''m1'' emptyMachineStatus),
      DeleteCall (object ''Machine'' ''ns1'' ''m1'' emptyMachineStatus)
        [PropagationPolicy DeletePropagationForeground]]
   \<and> ForceDeleteMachine quiet ''ns1'' ''m1''
   = (Err (Wrap ''error getting Machine ns1/m1'' (NotFound ''m1'')), [GetCall ''ns1'' ''m1''])"
proof -
  let ?X = "quiet\<lparr>GetMachine := (\<lambda>namespace name.
               Inr ((object ''Machine'' namespace name emptyMachineStatus)
                      \<lparr>Meta := \<lparr>Name = name, Namespace = namespace, Annotations = [],
                                OwnerReferences = [], Finalizers = [''machine.cluster.k8s.io'']\<rparr>\<rparr>))\<rparr>"
  have config: "GetConfig ?X = None" "GetConfig quiet = None"
    and built: "New ?X = None" "New quiet = None"
    by (simp_all add: quiet_def)
  have present: "snd (ForceDeleteMachine ?X ''ns1'' ''m1'')
       = [GetCall ''ns1'' ''m1'',
          UpdateCall (object ''Machine'' ''ns1'' ''m1'' emptyMachineStatus),
          DeleteCall (object ''Machine'' ''ns1'' ''m1'' emptyMachineStatus)
            [PropagationPolicy DeletePropagationForeground]]"
    using ForceDeleteMachine_calls [OF config(1) built(1), of "''ns1''" "''m1''"]
    by (simp add: quiet_def object_def)
  have absent: "ForceDeleteMachine quiet ''ns1'' ''m1''
       = (Err (Wrap ''error getting Machine ns1/m1'' (NotFound ''m1'')), [GetCall ''ns1'' ''m1''])"
    using ForceDeleteMachine_calls [OF config(2) built(2), of "''ns1''" "''m1''"]
    by (simp add: quiet_def)
  from present absent show ?thesis by simp
qed

text \<open>
  When \<^verbatim>\<open>ctrlclient.New\<close> fails, the function does not read the error and panics at the
  get call on the nil client.
\<close>

lemma ForceDeleteMachine_nil_client:
  "GetConfig X = None \<Longrightarrow> New X = Some err \<Longrightarrow>
     ForceDeleteMachine X namespace name = (Panic NilDereference, [])"
  by (simp add: ForceDeleteMachine_def ctrlclientNew_def)

subsection \<open>The poller and the waits\<close>

lemma pollLoop_first_true:
  "condition s t = (Ok True, s') \<Longrightarrow> pollLoop n interval condition s t = (Ok (), s', t)"
  by (cases n) simp_all

lemma pollLoop_first_panic:
  "condition s t = (Panic p, s') \<Longrightarrow> pollLoop n interval condition s t = (Panic p, s', t)"
  by (cases n) simp_all

text \<open>
  With the configuration of the client obtained, \<^verbatim>\<open>waitForMachineReady\<close> on the nil
  pointer panics at the first call of its probe.
\<close>

lemma waitForMachineReady_nil:
  "GetConfig (R t) = None \<Longrightarrow> waitForMachineReady R None t = (Panic NilDereference, t)"
  by (simp add: waitForMachineReady_def PollImmediate_def machineReadyProbe_def
        pollLoop_first_panic Let_def)

subsection \<open>DeleteClusters and DeleteMachines\<close>

text \<open>
  The loop over the objects of all namespaces, started as the source starts it with two
  empty maps, panics as soon as there is an object.
\<close>

lemma namespacesLoop_empty_maps:
  "namespacesLoop items [] Map.empty = (if items = [] then Ok ([], Map.empty) else Panic NilDereference)"
  by (cases items) simp_all

text \<open>
  Claim C4, on the code: \<^verbatim>\<open>DeleteClusters\<close> with the empty namespace, at a remote with
  one cluster, in the namespace \<open>ns1\<close>. The claim has the client delete the clusters of
  \<open>ns1\<close> and wait for them to be gone; \<^verbatim>\<open>DeleteClusters\<close> panics on a nil pointer
  before it has issued a delete call.
\<close>

theorem DeleteClusters_all_namespaces_panics:
  "DeleteClusters
     (\<lambda>t. quiet\<lparr>ListClusters := (\<lambda>opts. Inr [object ''Cluster'' ''ns1'' ''c1'' emptyClusterStatus])\<rparr>)
     '''' 0
   = (Panic NilDereference, 0)"
  by (simp add: DeleteClusters_def ctrlclientNew_def quiet_def object_def)

text \<open>
  Claim C5, on the code: \<^verbatim>\<open>DeleteMachines\<close> in the namespace \<open>ns1\<close>, at a remote with
  no machine sets and with a machine in \<open>ns1\<close> that the delete call leaves in place at all
  times. The claim has the client wait until the list of machines is empty;
  \<^verbatim>\<open>DeleteMachines\<close> waits for the list of machine sets and reports success at once.
\<close>

theorem DeleteMachines_waits_for_machine_sets:
  "DeleteMachines
     (\<lambda>t. quiet\<lparr>ListMachines := (\<lambda>opts. Inr [object ''Machine'' ''ns1'' ''m1'' emptyMachineStatus])\<rparr>)
     ''ns1'' 0
   = (Ok (), 0)"
  by (simp add: DeleteMachines_def waitForMachineSetsDelete_def PollImmediate_def
        machineSetsDeleteProbe_def pollLoop_first_true ctrlclientNew_def quiet_def)

subsection \<open>CreateMachines\<close>

text \<open>
  A goroutine that has created its machine and reads a nil \<^verbatim>\<open>err\<close> panics, whatever the
  machine and whatever the remote answers about it.
\<close>

lemma goroutineStep_check_nil_panics:
  assumes "i < length machines" and "Panicked c = None" and "Positions c ! i = AtCheck"
    and "ErrVar c = None" and "GetConfig (R t) = None"
  shows "Panicked (goroutineStep R t clientset namespace machines i c) = Some NilDereference"
  using assms by (simp add: goroutineStep_def waitForMachineReady_nil)

text \<open>
  Claim C2, on the code: one machine, whose create call succeeds and which the get call
  returns with a node reference, that is ready; the goroutine takes its two steps. The claim
  has the goroutine wait for the readiness of the machine it created; the goroutine gives
  \<^verbatim>\<open>waitForMachineReady\<close> the nil pointer and the program panics.
\<close>

theorem CreateMachines_waits_on_nil:
  "CreateMachines
     (\<lambda>t. quiet\<lparr>GetMachine := (\<lambda>namespace name.
        Inr (object ''Machine'' namespace name
               \<lparr>NodeRef = Some ''node1'', MachineProviderStatus = None, MachineStatusOther = []\<rparr>))\<rparr>)
     0 [object ''Machine'' '''' ''m1'' emptyMachineStatus] ''ns1'' [0, 0]
   = (Some (Panic NilDereference),
      [CreateCall (object ''Machine'' ''ns1'' ''m1'' emptyMachineStatus)])"
  by (simp add: CreateMachines_def goroutineStep_def waitForMachineReady_nil ctrlclientNew_def
        quiet_def object_def)

text \<open>
  Claim C3, on the code: two machines, of which \<open>m2\<close> fails to create and \<open>m1\<close> is
  created; the goroutine of \<open>m2\<close> runs to its end, then the goroutine of \<open>m1\<close>. The claim
  has \<^verbatim>\<open>CreateMachines\<close> return the error of \<open>m2\<close> when both goroutines have finished;
  both create calls are issued, and the program panics in the goroutine of \<open>m1\<close>.
\<close>

theorem CreateMachines_one_failure_panics:
  "CreateMachines
     (\<lambda>t. quiet\<lparr>CreateMachine := (\<lambda>machine.
        if Name (Meta machine) = ''m2'' then Some (RemoteError ''already exists'') else None)\<rparr>)
     0 [object ''Machine'' '''' ''m1'' emptyMachineStatus,
        object ''Machine'' '''' ''m2'' emptyMachineStatus] ''ns1'' [1, 1, 0, 0]
   = (Some (Panic NilDereference),
      [CreateCall (object ''Machine'' ''ns1'' ''m2'' emptyMachineStatus),
       CreateCall (object ''Machine'' ''ns1'' ''m1'' emptyMachineStatus)])"
  by (simp add: CreateMachines_def goroutineStep_def waitForMachineReady_nil ctrlclientNew_def
        quiet_def object_def errOnceDo_def)

text \<open>
  With the same two machines and the goroutine of \<open>m1\<close> first, the panic comes before the
  create call of \<open>m2\<close>.
\<close>

lemma CreateMachines_panics_before_second_create:
  "CreateMachines
     (\<lambda>t. quiet\<lparr>CreateMachine := (\<lambda>machine.
        if Name (Meta machine) = ''m2'' then Some (RemoteError ''already exists'') else None)\<rparr>)
     0 [object ''Machine'' '''' ''m1'' emptyMachineStatus,
        object ''Machine'' '''' ''m2'' emptyMachineStatus] ''ns1'' [0, 0, 1, 1]
   = (Some (Panic NilDereference),
      [CreateCall (object ''Machine'' ''ns1'' ''m1'' emptyMachineStatus)])"
  by (simp add: CreateMachines_def goroutineStep_def waitForMachineReady_nil ctrlclientNew_def
        quiet_def object_def errOnceDo_def)

end
